theory Spec2Isabelle
  imports Main
begin

section \<open>JavaScript values reaching the server\<close>

text \<open>
  Tool-call arguments arrive as JSON. The server inspects them with \<open>typeof\<close>, with
  truthiness tests, with \<open>===\<close> against strings and with template literals, so the
  embedding keeps the JavaScript value and gives each of these operations.

  A number is kept as the text that the number-to-string conversion of JavaScript gives
  for it (\<open>5\<close>, \<open>-3.25\<close>, \<open>1e+21\<close>). That text fixes the number up to the sign of zero,
  and it is all the server reads of a number: a number is falsy exactly when it is zero or
  NaN, that is, when its text is \<open>0\<close> or \<open>NaN\<close>.
\<close>

datatype error = Error string

fun message :: "error \<Rightarrow> string" where
  "message (Error m) = m"

datatype js_value =
    JUndefined
  | JNull
  | JBool bool
  | JNum string
  | JStr string
  | JArr "js_value list"
  | JObj "(string \<times> js_value) list"

fun js_typeof :: "js_value \<Rightarrow> string" where
  "js_typeof JUndefined = ''undefined''"
| "js_typeof JNull = ''object''"
| "js_typeof (JBool b) = ''boolean''"
| "js_typeof (JNum n) = ''number''"
| "js_typeof (JStr s) = ''string''"
| "js_typeof (JArr xs) = ''object''"
| "js_typeof (JObj kvs) = ''object''"

fun truthy :: "js_value \<Rightarrow> bool" where
  "truthy JUndefined = False"
| "truthy JNull = False"
| "truthy (JBool b) = b"
| "truthy (JNum n) = (n \<noteq> ''0'' \<and> n \<noteq> ''NaN'')"
| "truthy (JStr s) = (s \<noteq> [])"
| "truthy (JArr xs) = True"
| "truthy (JObj kvs) = True"

text \<open>\<open>args.user_id\<close>: the own property of an object, \<open>undefined\<close> on anything else.\<close>

fun user_id :: "js_value \<Rightarrow> js_value" where
  "user_id (JObj kvs) = (case map_of kvs ''user_id'' of None \<Rightarrow> JUndefined | Some v \<Rightarrow> v)"
| "user_id v = JUndefined"

text \<open>
  The string a template literal \<open>`${v}`\<close> inserts for a value, or the TypeError it
  throws. An array is joined with commas, \<open>null\<close> and \<open>undefined\<close> elements giving the
  empty string; the first element that cannot be converted throws. A plain object gives
  \<open>[object Object]\<close> through \<open>Object.prototype.toString\<close>, unless it has an own
  \<open>toString\<close> property: parsed from JSON that property is never callable, no primitive
  is obtained and the conversion throws.
\<close>

fun join_results :: "(error + string) list \<Rightarrow> error + string" where
  "join_results [] = Inr []"
| "join_results [r] = r"
| "join_results (Inl e # rs) = Inl e"
| "join_results (Inr s # rs) =
     (case join_results rs of Inl e \<Rightarrow> Inl e | Inr t \<Rightarrow> Inr (s @ '','' @ t))"

fun js_String :: "js_value \<Rightarrow> error + string" where
  "js_String JUndefined = Inr ''undefined''"
| "js_String JNull = Inr ''null''"
| "js_String (JBool b) = Inr (if b then ''true'' else ''false'')"
| "js_String (JNum n) = Inr n"
| "js_String (JStr s) = Inr s"
| "js_String (JArr xs) =
     join_results (map (\<lambda>x. if x = JUndefined \<or> x = JNull then Inr [] else js_String x) xs)"
| "js_String (JObj kvs) =
     (if map_of kvs ''toString'' = None then Inr ''[object Object]''
      else Inl (Error ''Cannot convert object to primitive value''))"

definition startsWith :: "string \<Rightarrow> string \<Rightarrow> bool" where
  "startsWith s p = (take (length p) s = p)"

section \<open>JSON.stringify of the error payload\<close>

definition hex_digit :: "nat \<Rightarrow> char" where
  "hex_digit d = (if d < 10 then char_of (48 + d) else char_of (87 + d))"

definition JSON_escape :: "char \<Rightarrow> string" where
  "JSON_escape c =
     (if c = CHR 0x22 then [CHR 0x5C, CHR 0x22]
      else if c = CHR 0x5C then [CHR 0x5C, CHR 0x5C]
      else if c = CHR 0x08 then [CHR 0x5C, CHR ''b'']
      else if c = CHR 0x0C then [CHR 0x5C, CHR ''f'']
      else if c = CHR 0x0A then [CHR 0x5C, CHR ''n'']
      else if c = CHR 0x0D then [CHR 0x5C, CHR ''r'']
      else if c = CHR 0x09 then [CHR 0x5C, CHR ''t'']
      else if (of_char c :: nat) < 32
        then [CHR 0x5C, CHR ''u'', CHR ''0'', CHR ''0'',
              hex_digit (of_char c div 16), hex_digit (of_char c mod 16)]
      else [c])"

definition JSON_quote :: "string \<Rightarrow> string" where
  "JSON_quote s = CHR 0x22 # concat (map JSON_escape s) @ [CHR 0x22]"

text \<open>
  \<open>JSON.stringify({ error: msg, success: false }, null, 2)\<close>: two-space indentation,
  one member per line.
\<close>

definition JSON_stringify_error :: "string \<Rightarrow> string" where
  "JSON_stringify_error msg =
     ''{'' @ [CHR 0x0A] @ ''  '' @ JSON_quote ''error'' @ '': '' @ JSON_quote msg @ '','' @
     [CHR 0x0A] @ ''  '' @ JSON_quote ''success'' @ '': false'' @ [CHR 0x0A] @ ''}''"

section \<open>Data of the credential layer\<close>

record account =
  email :: string
  accountType :: string
  extraInfo :: string

text \<open>The token fields of a stored credential object (\<open>credentials.credentials\<close>).\<close>

record tokens =
  access_token :: "string option"
  refresh_token :: "string option"
  expiry_date :: "int option"

record stored_credentials =
  credentials :: tokens

text \<open>A value of the object \<open>querystring.parse\<close> returns: one string, or an array when the key repeats.\<close>

datatype query_value = QStr string | QArr "string list"

fun query_truthy :: "query_value \<Rightarrow> bool" where
  "query_truthy (QStr s) = (s \<noteq> [])"
| "query_truthy (QArr ss) = True"

text \<open>
  An incoming callback request, after \<open>url.parse\<close> and \<open>querystring.parse\<close>:
  \<open>req_pathname\<close> is \<open>url.pathname\<close> (\<open>None\<close> for \<open>null\<close>), \<open>req_query\<close> the parsed
  query object. The method is carried to show that the handler never reads it.
\<close>

record request =
  req_method :: string
  req_pathname :: "string option"
  req_query :: "(string \<times> query_value) list"

datatype content =
    TextContent string
  | ImageContent string string
  | EmbeddedResource string

record tool_result =
  isError :: bool
  content :: "content list"

section \<open>Tools\<close>

datatype gmail_call =
    ListAccounts
  | QueryEmails js_value
  | GetEmailById js_value
  | BulkGetEmails js_value
  | CreateDraft js_value
  | SendEmail js_value
  | DeleteDraft js_value
  | Reply js_value
  | Forward js_value
  | GetAttachment js_value
  | BulkSaveAttachments js_value
  | Archive js_value
  | BulkArchive js_value

datatype calendar_call =
    CalendarListAccounts
  | ListCalendars js_value
  | GetCalendarEvents js_value
  | CreateCalendarEvent js_value
  | UpdateCalendarEvent js_value
  | DeleteCalendarEvent js_value
  | RespondToCalendarEvent js_value

text \<open>A tool declaration; only the name matters to the filter in \<open>getTools\<close>.\<close>

record tool =
  tool_name :: string

definition gmail_tools :: "tool list" where
  "gmail_tools = map (\<lambda>n. \<lparr>tool_name = n\<rparr>)
     [''gmail_list_accounts'', ''gmail_query_emails'', ''gmail_get_email'',
      ''gmail_bulk_get_emails'', ''gmail_create_draft'', ''gmail_send_email'',
      ''gmail_delete_draft'', ''gmail_reply'', ''gmail_forward'', ''gmail_get_attachment'',
      ''gmail_bulk_save_attachments'', ''gmail_archive'', ''gmail_bulk_archive'']"

text \<open>\<open>GmailTools.getTools\<close>; the argument is \<open>process.env.GMAIL_ALLOW_SENDING\<close>.\<close>

definition getTools :: "string option \<Rightarrow> tool list" where
  "getTools allow_sending =
     filter (\<lambda>t. if allow_sending = Some ''true'' then True
                 else (tool_name t \<noteq> ''gmail_reply'' \<and> tool_name t \<noteq> ''gmail_create_draft'' \<and>
                       tool_name t \<noteq> ''gmail_forward'' \<and> tool_name t \<noteq> ''gmail_send_email''))
       gmail_tools"

text \<open>The \<open>switch\<close> of \<open>GmailTools.handleTool\<close>; \<open>None\<close> is the \<open>default\<close> branch.\<close>

definition gmail_switch :: "string \<Rightarrow> js_value \<Rightarrow> gmail_call option" where
  "gmail_switch nm args =
     (if nm = ''gmail_list_accounts'' then Some ListAccounts
      else if nm = ''gmail_query_emails'' then Some (QueryEmails args)
      else if nm = ''gmail_get_email'' then Some (GetEmailById args)
      else if nm = ''gmail_bulk_get_emails'' then Some (BulkGetEmails args)
      else if nm = ''gmail_create_draft'' then Some (CreateDraft args)
      else if nm = ''gmail_send_email'' then Some (SendEmail args)
      else if nm = ''gmail_delete_draft'' then Some (DeleteDraft args)
      else if nm = ''gmail_reply'' then Some (Reply args)
      else if nm = ''gmail_forward'' then Some (Forward args)
      else if nm = ''gmail_get_attachment'' then Some (GetAttachment args)
      else if nm = ''gmail_bulk_save_attachments'' then Some (BulkSaveAttachments args)
      else if nm = ''gmail_archive'' then Some (Archive args)
      else if nm = ''gmail_bulk_archive'' then Some (BulkArchive args)
      else None)"

definition calendar_switch :: "string \<Rightarrow> js_value \<Rightarrow> calendar_call option" where
  "calendar_switch nm args =
     (if nm = ''calendar_list_accounts'' then Some CalendarListAccounts
      else if nm = ''calendar_list'' then Some (ListCalendars args)
      else if nm = ''calendar_get_events'' then Some (GetCalendarEvents args)
      else if nm = ''calendar_create_event'' then Some (CreateCalendarEvent args)
      else if nm = ''calendar_update_event'' then Some (UpdateCalendarEvent args)
      else if nm = ''calendar_delete_event'' then Some (DeleteCalendarEvent args)
      else if nm = ''calendar_respond_event'' then Some (RespondToCalendarEvent args)
      else None)"

section \<open>Process state and effects\<close>

text \<open>
  Everything the server does besides returning a value is appended to a trace: the calls
  into \<open>GAuthService\<close>, the tool implementations run, the browser spawned, the
  listener operations, the HTTP responses written and the error log lines.
\<close>

datatype event =
    GetAccountInfo
  | GetStoredCredentials js_value
  | GetAuthorizationUrl js_value
  | GetUserInfo stored_credentials
  | StoreCredentials stored_credentials js_value
  | GetCredentials query_value
  | Spawn string "string list"
  | Listen nat nat
  | Close nat
  | Respond nat nat string
  | LogError string
  | Gmail gmail_call
  | Calendar calendar_call

text \<open>
  \<open>remote\<close> is whatever lies behind \<open>GAuthService\<close> and the Google APIs (credential
  files, the provider); \<open>now\<close> is \<open>Date.now()\<close> in milliseconds; \<open>servers\<close> has one
  entry per \<open>OAuthServer\<close> created, \<open>Some p\<close> while \<open>listen(p)\<close> has been called and
  \<open>close()\<close> has not.
\<close>

record 'g world =
  remote :: 'g
  now :: int
  servers :: "nat option list"
  trace :: "event list"

type_synonym ('g, 'a) prog = "'g world \<Rightarrow> (error + 'a) \<times> 'g world"

definition ret :: "'a \<Rightarrow> ('g, 'a) prog" where
  "ret x w = (Inr x, w)"

definition throw :: "error \<Rightarrow> ('g, 'a) prog" where
  "throw e w = (Inl e, w)"

definition bnd :: "('g, 'a) prog \<Rightarrow> ('a \<Rightarrow> ('g, 'b) prog) \<Rightarrow> ('g, 'b) prog" where
  "bnd m f w = (case m w of (Inl e, w') \<Rightarrow> (Inl e, w') | (Inr x, w') \<Rightarrow> f x w')"

definition try_catch :: "('g, 'a) prog \<Rightarrow> (error \<Rightarrow> ('g, 'a) prog) \<Rightarrow> ('g, 'a) prog" where
  "try_catch m h w = (case m w of (Inl e, w') \<Rightarrow> h e w' | (Inr x, w') \<Rightarrow> (Inr x, w'))"

definition emit :: "event \<Rightarrow> ('g, unit) prog" where
  "emit ev w = (Inr (), w\<lparr>trace := trace w @ [ev]\<rparr>)"

text \<open>An awaited call into a collaborator: logged, then run on the remote state.\<close>

definition gcall :: "event \<Rightarrow> ('g \<Rightarrow> (error + 'a) \<times> 'g) \<Rightarrow> ('g, 'a) prog" where
  "gcall ev f w =
     (case f (remote w) of (r, g') \<Rightarrow> (r, w\<lparr>remote := g', trace := trace w @ [ev]\<rparr>))"

text \<open>
  The collaborators whose code is outside the server module: the methods of
  \<open>GAuthService\<close> the server calls, and the bodies of the Gmail and Calendar tools.
  Each may fail with an error and may change the remote state. \<open>getUserInfo\<close> returns the
  credential object as the call leaves it, since the object is passed by reference.
\<close>

record 'g services =
  getAccountInfo :: "'g \<Rightarrow> (error + account list) \<times> 'g"
  getStoredCredentials :: "js_value \<Rightarrow> 'g \<Rightarrow> (error + stored_credentials option) \<times> 'g"
  getAuthorizationUrl :: "js_value \<Rightarrow> 'g \<Rightarrow> (error + string) \<times> 'g"
  getUserInfo :: "stored_credentials \<Rightarrow> 'g \<Rightarrow> (error + stored_credentials) \<times> 'g"
  storeCredentials :: "stored_credentials \<Rightarrow> js_value \<Rightarrow> 'g \<Rightarrow> (error + unit) \<times> 'g"
  getCredentials :: "query_value \<Rightarrow> 'g \<Rightarrow> (error + unit) \<times> 'g"
  gmail_impl :: "gmail_call \<Rightarrow> 'g \<Rightarrow> (error + content list) \<times> 'g"
  calendar_impl :: "calendar_call \<Rightarrow> 'g \<Rightarrow> (error + content list) \<times> 'g"

definition GmailTools_handleTool :: "'g services \<Rightarrow> string \<Rightarrow> js_value \<Rightarrow> ('g, content list) prog" where
  "GmailTools_handleTool svc nm args =
     (case gmail_switch nm args of
        None \<Rightarrow> throw (Error (''Unknown tool: '' @ nm))
      | Some c \<Rightarrow> gcall (Gmail c) (gmail_impl svc c))"

definition CalendarTools_handleTool :: "'g services \<Rightarrow> string \<Rightarrow> js_value \<Rightarrow> ('g, content list) prog" where
  "CalendarTools_handleTool svc nm args =
     (case calendar_switch nm args of
        None \<Rightarrow> throw (Error (''Unknown tool: '' @ nm))
      | Some c \<Rightarrow> gcall (Calendar c) (calendar_impl svc c))"

section \<open>The callback listener\<close>

definition OAuthServer_new :: "('g, nat) prog" where
  "OAuthServer_new w = (Inr (length (servers w)), w\<lparr>servers := servers w @ [None]\<rparr>)"

definition OAuthServer_listen :: "nat \<Rightarrow> nat \<Rightarrow> ('g, unit) prog" where
  "OAuthServer_listen sid port w =
     (Inr (), w\<lparr>servers := (servers w)[sid := Some port], trace := trace w @ [Listen sid port]\<rparr>)"

definition OAuthServer_close :: "nat \<Rightarrow> ('g, unit) prog" where
  "OAuthServer_close sid w =
     (Inr (), w\<lparr>servers := (servers w)[sid := None], trace := trace w @ [Close sid]\<rparr>)"

text \<open>
  \<open>OAuthServer.handleRequest\<close> of the instance \<open>sid\<close>. A response is one event:
  status and body. An error result is an exception leaving the request handler.
\<close>

definition handleRequest :: "'g services \<Rightarrow> nat \<Rightarrow> request \<Rightarrow> ('g, unit) prog" where
  "handleRequest svc sid req =
     (if req_pathname req \<noteq> Some ''/code'' then emit (Respond sid 404 [])
      else (case map_of (req_query req) ''code'' of
              None \<Rightarrow> emit (Respond sid 400 [])
            | Some code \<Rightarrow>
                if \<not> query_truthy code then emit (Respond sid 400 [])
                else bnd (emit (Respond sid 200 ''Auth successful! You can close the tab!''))
                       (\<lambda>_. bnd (gcall (GetCredentials code) (getCredentials svc code))
                       (\<lambda>_. OAuthServer_close sid))))"

section \<open>The server: credential setup and the tool-call handler\<close>

definition startAuthFlow :: "'g services \<Rightarrow> js_value \<Rightarrow> ('g, unit) prog" where
  "startAuthFlow svc userId =
     bnd (gcall (GetAuthorizationUrl userId) (getAuthorizationUrl svc userId))
       (\<lambda>authUrl. bnd (emit (Spawn ''open'' [authUrl]))
       (\<lambda>_. bnd OAuthServer_new
       (\<lambda>oauthServer. OAuthServer_listen oauthServer 4100)))"

text \<open>The test of line 129: \<open>tokens.expiry_date && tokens.expiry_date < Date.now()\<close>.\<close>

definition credentials_expired :: "tokens \<Rightarrow> int \<Rightarrow> bool" where
  "credentials_expired tk t =
     (case expiry_date tk of None \<Rightarrow> False | Some e \<Rightarrow> e \<noteq> 0 \<and> e < t)"

definition log_if_expired :: "stored_credentials \<Rightarrow> ('g, unit) prog" where
  "log_if_expired c w =
     (if credentials_expired (credentials c) (now w)
      then emit (LogError ''credentials expired, trying refresh'') w
      else ret () w)"

definition setupOAuth2 :: "'g services \<Rightarrow> js_value \<Rightarrow> ('g, unit) prog" where
  "setupOAuth2 svc userId =
     bnd (gcall GetAccountInfo (getAccountInfo svc))
       (\<lambda>accounts.
          if length accounts = 0 then throw (Error ''No accounts specified in .gauth.json'')
          else if \<not> list_ex (\<lambda>a. JStr (email a) = userId) accounts
            then (case js_String userId of
                    Inl e \<Rightarrow> throw e
                  | Inr s \<Rightarrow> throw (Error (''Account for email: '' @ s @
                                             '' not specified in .gauth.json'')))
          else bnd (gcall (GetStoredCredentials userId) (getStoredCredentials svc userId))
            (\<lambda>creds. case creds of
                None \<Rightarrow> startAuthFlow svc userId
              | Some c \<Rightarrow>
                  bnd (log_if_expired c)
                    (\<lambda>_. bnd (gcall (GetUserInfo c) (getUserInfo svc c))
                    (\<lambda>c'. gcall (StoreCredentials c' userId) (storeCredentials svc c' userId)))))"

definition error_result :: "string \<Rightarrow> tool_result" where
  "error_result msg = \<lparr>isError = True, content = [TextContent (JSON_stringify_error msg)]\<rparr>"

text \<open>The routing block that appears twice in the handler.\<close>

definition route :: "'g services \<Rightarrow> string \<Rightarrow> js_value \<Rightarrow> ('g, tool_result) prog" where
  "route svc nm args =
     bnd (if startsWith nm ''gmail_'' then GmailTools_handleTool svc nm args
          else if startsWith nm ''calendar_'' then CalendarTools_handleTool svc nm args
          else throw (Error (''Unknown tool: '' @ nm)))
       (\<lambda>result. ret \<lparr>isError = False, content = result\<rparr>)"

definition route_guarded :: "'g services \<Rightarrow> string \<Rightarrow> js_value \<Rightarrow> ('g, tool_result) prog" where
  "route_guarded svc nm args =
     try_catch (route svc nm args)
       (\<lambda>err. bnd (emit (LogError (''Error handling tool '' @ nm @ '':'')))
          (\<lambda>_. ret (error_result (''Tool execution failed: '' @ message err))))"

text \<open>
  The \<open>try\<close> around \<open>setupOAuth2\<close>: \<open>Some r\<close> is the early \<open>return r\<close> of its
  \<open>catch\<close>, \<open>None\<close> falls through to the routing.
\<close>

definition setup_guarded :: "'g services \<Rightarrow> js_value \<Rightarrow> ('g, tool_result option) prog" where
  "setup_guarded svc userId =
     try_catch (bnd (setupOAuth2 svc userId) (\<lambda>_. ret None))
       (\<lambda>err. bnd (emit (LogError ''OAuth2 setup failed:''))
          (\<lambda>_. ret (Some (error_result (''OAuth2 setup failed: '' @ message err)))))"

text \<open>The handler registered for \<open>CallToolRequestSchema\<close>.\<close>

definition CallTool_handler :: "'g services \<Rightarrow> string \<Rightarrow> js_value \<Rightarrow> ('g, tool_result) prog" where
  "CallTool_handler svc nm args =
     try_catch
       (if js_typeof args \<noteq> ''object'' \<or> args = JNull
          then ret (error_result ''arguments must be dictionary'')
        else if nm = ''gmail_list_accounts'' \<or> nm = ''calendar_list_accounts''
          then route_guarded svc nm args
        else if \<not> truthy (user_id args)
          then ret (error_result ''user_id argument is missing in dictionary'')
        else bnd (setup_guarded svc (user_id args))
               (\<lambda>early. case early of
                           Some r \<Rightarrow> ret r
                         | None \<Rightarrow> route_guarded svc nm args))
       (\<lambda>err. bnd (emit (LogError ''Unexpected error in call_tool:''))
          (\<lambda>_. ret (error_result (''Unexpected error: '' @ message err))))"


section \<open>Token refresh\<close>

text \<open>
  Modelled from the spec: \<open>OAuthClient.refresh\<close> and the persisting of its result by the
  credential manager. The module that implements them (\<open>services/gauth\<close>) is not among
  the sources; the server only calls it. The provider is a function from the refresh
  token presented to its reply.
\<close>

record token_set =
  accessToken :: string
  refreshToken :: "string option"
  expiry :: int
  scopes :: "string list"

record refresh_response =
  new_accessToken :: string
  new_refreshToken :: "string option"
  new_expiry :: int

datatype provider_reply = Granted refresh_response | Rejected | Unreachable

datatype refresh_error = ReauthRequired | TransientNetworkError

definition refresh :: "(string \<Rightarrow> provider_reply) \<Rightarrow> token_set \<Rightarrow> refresh_error + token_set" where
  "refresh provider ts =
     (case refreshToken ts of
        None \<Rightarrow> Inl ReauthRequired
      | Some r \<Rightarrow>
          (case provider r of
             Rejected \<Rightarrow> Inl ReauthRequired
           | Unreachable \<Rightarrow> Inl TransientNetworkError
           | Granted resp \<Rightarrow>
               Inr (ts\<lparr>accessToken := new_accessToken resp,
                       refreshToken := (case new_refreshToken resp of
                                          None \<Rightarrow> Some r
                                        | Some r' \<Rightarrow> Some r'),
                       expiry := new_expiry resp\<rparr>)))"

text \<open>
  Modelled from the spec: a record is updated on every successful refresh; a failed
  refresh leaves the store as it was. The store maps an account email to its record.
\<close>

definition refresh_and_persist ::
  "(string \<Rightarrow> provider_reply) \<Rightarrow> string \<Rightarrow> (string \<rightharpoonup> token_set) \<Rightarrow>
     (refresh_error + token_set) \<times> (string \<rightharpoonup> token_set)" where
  "refresh_and_persist provider em store =
     (case store em of
        None \<Rightarrow> (Inl ReauthRequired, store)
      | Some ts \<Rightarrow>
          (case refresh provider ts of
             Inl e \<Rightarrow> (Inl e, store)
           | Inr ts' \<Rightarrow> (Inr ts', store(em \<mapsto> ts'))))"

section \<open>A sample environment\<close>

text \<open>
  Concrete collaborators on which the theorems below are instantiated: two configured
  accounts, credential files as an association list from email to credential object, a
  provider that accepts the authorization code \<open>ABC\<close> only, and tools that answer \<open>ok\<close>.
\<close>

definition example_accounts :: "account list" where
  "example_accounts =
     [\<lparr>email = ''a@x.com'', accountType = ''personal'', extraInfo = []\<rparr>,
      \<lparr>email = ''b@x.com'', accountType = ''work'', extraInfo = []\<rparr>]"

definition example_key :: "js_value \<Rightarrow> string" where
  "example_key u = (case u of JStr s \<Rightarrow> s | _ \<Rightarrow> [])"

definition example_services :: "(string \<times> stored_credentials) list services" where
  "example_services =
     \<lparr>getAccountInfo = (\<lambda>g. (Inr example_accounts, g)),
      getStoredCredentials = (\<lambda>u g. (Inr (map_of g (example_key u)), g)),
      getAuthorizationUrl = (\<lambda>u g. (Inr (''https://auth.example/?login_hint='' @ example_key u), g)),
      getUserInfo = (\<lambda>c g. (Inr c, g)),
      storeCredentials = (\<lambda>c u g. (Inr (), (example_key u, c) # g)),
      getCredentials = (\<lambda>code g. if code = QStr ''ABC'' then (Inr (), g)
                                  else (Inl (Error ''invalid_grant''), g)),
      gmail_impl = (\<lambda>c g. (Inr [TextContent ''ok''], g)),
      calendar_impl = (\<lambda>c g. (Inr [TextContent ''ok''], g))\<rparr>"

definition example_world :: "(string \<times> stored_credentials) list world" where
  "example_world = \<lparr>remote = [], now = 1700000000000, servers = [], trace = []\<rparr>"

text \<open>The same process while one listener waits on port 4100.\<close>

definition example_waiting :: "(string \<times> stored_credentials) list world" where
  "example_waiting = \<lparr>remote = [], now = 1700000000000, servers = [Some 4100], trace = []\<rparr>"

section \<open>Basic facts about the handler\<close>

lemmas prog_defs = ret_def throw_def bnd_def try_catch_def emit_def gcall_def

text \<open>Both inner \<open>try\<close> blocks catch everything, so neither lets an exception out.\<close>

lemma route_guarded_returns: "\<exists>r w'. route_guarded svc nm args w = (Inr r, w')"
  by (auto simp: route_guarded_def prog_defs split: prod.splits sum.splits)


lemma startAuthFlow_ok:
  assumes "getAuthorizationUrl svc u (remote w) = (Inr url, g')"
  shows "startAuthFlow svc u w =
     (Inr (), w\<lparr>remote := g', servers := servers w @ [Some 4100],
               trace := trace w @ [GetAuthorizationUrl u, Spawn ''open'' [url],
                                   Listen (length (servers w)) 4100]\<rparr>)"
  using assms
  by (simp add: startAuthFlow_def prog_defs OAuthServer_new_def OAuthServer_listen_def)

lemma setupOAuth2_no_record:
  assumes "getAccountInfo svc (remote w) = (Inr accounts, g1)"
    and "list_ex (\<lambda>a. JStr (email a) = u) accounts"
    and "getStoredCredentials svc u g1 = (Inr None, g2)"
    and "getAuthorizationUrl svc u g2 = (Inr url, g3)"
  shows "setupOAuth2 svc u w =
     (Inr (), w\<lparr>remote := g3, servers := servers w @ [Some 4100],
               trace := trace w @ [GetAccountInfo, GetStoredCredentials u, GetAuthorizationUrl u,
                                   Spawn ''open'' [url], Listen (length (servers w)) 4100]\<rparr>)"
proof -
  have ne: "accounts \<noteq> []" using assms(2) by auto
  let ?w1 = "w\<lparr>remote := g2, trace := trace w @ [GetAccountInfo, GetStoredCredentials u]\<rparr>"
  have "startAuthFlow svc u ?w1 =
     (Inr (), ?w1\<lparr>remote := g3, servers := servers ?w1 @ [Some 4100],
               trace := trace ?w1 @ [GetAuthorizationUrl u, Spawn ''open'' [url],
                                   Listen (length (servers ?w1)) 4100]\<rparr>)"
    by (rule startAuthFlow_ok) (simp add: assms(4))
  then show ?thesis
    using assms(1-3) ne by (simp add: setupOAuth2_def bnd_def gcall_def)
qed

lemma setupOAuth2_unknown:
  assumes "getAccountInfo svc (remote w) = (Inr accounts, g')"
    and "u \<notin> email ` set accounts"
  shows "setupOAuth2 svc (JStr u) w =
     (Inl (Error (if accounts = [] then ''No accounts specified in .gauth.json''
                  else ''Account for email: '' @ u @ '' not specified in .gauth.json'')),
      w\<lparr>remote := g', trace := trace w @ [GetAccountInfo]\<rparr>)"
proof -
  have "\<not> list_ex (\<lambda>a. JStr (email a) = JStr u) accounts"
    using assms(2) by (auto simp: list_ex_iff)
  then show ?thesis
    using assms(1) by (simp add: setupOAuth2_def bnd_def gcall_def throw_def)
qed

subsection \<open>What a tool call can append to the trace\<close>





section \<open>The claims\<close>

subsection \<open>C1: first use of an account\<close>

text \<open>
  C1 (as amended). For every configured account with no stored credential record, a
  protected tool call builds an authorization URL for that account, opens it and starts
  the callback listener on port 4100, and then dispatches the original tool call at once:
  what remains of the call is the routing block, run on the world in which the listener
  has just been started. Nothing waits for the code to be received, exchanged or persisted.
\<close>

theorem C1_flow_started_then_tool_dispatched:
  assumes "nm \<noteq> ''gmail_list_accounts''" and "nm \<noteq> ''calendar_list_accounts''"
    and "js_typeof args = ''object''" and "args \<noteq> JNull"
    and "truthy (user_id args)"
    and "getAccountInfo svc (remote w) = (Inr accounts, g1)"
    and "list_ex (\<lambda>a. JStr (email a) = user_id args) accounts"
    and "getStoredCredentials svc (user_id args) g1 = (Inr None, g2)"
    and "getAuthorizationUrl svc (user_id args) g2 = (Inr url, g3)"
  shows "CallTool_handler svc nm args w =
     route_guarded svc nm args
       (w\<lparr>remote := g3, servers := servers w @ [Some 4100],
          trace := trace w @ [GetAccountInfo, GetStoredCredentials (user_id args),
                              GetAuthorizationUrl (user_id args), Spawn ''open'' [url],
                              Listen (length (servers w)) 4100]\<rparr>)"
proof -
  let ?w' = "w\<lparr>remote := g3, servers := servers w @ [Some 4100],
          trace := trace w @ [GetAccountInfo, GetStoredCredentials (user_id args),
                              GetAuthorizationUrl (user_id args), Spawn ''open'' [url],
                              Listen (length (servers w)) 4100]\<rparr>"
  have su: "setupOAuth2 svc (user_id args) w = (Inr (), ?w')"
    using assms(6-9) by (rule setupOAuth2_no_record)
  have guarded: "setup_guarded svc (user_id args) w = (Inr None, ?w')"
    by (simp add: setup_guarded_def try_catch_def bnd_def ret_def su)
  obtain r w'' where rg: "route_guarded svc nm args ?w' = (Inr r, w'')"
    using route_guarded_returns by blast
  show ?thesis
    unfolding CallTool_handler_def using assms(1-5)
    by (simp add: try_catch_def bnd_def ret_def guarded rg)
qed

text \<open>The theorem at the sample environment, for the account \<open>a@x.com\<close>.\<close>

theorem C1_witness:
  "CallTool_handler example_services ''gmail_query_emails'' (JObj [(''user_id'', JStr ''a@x.com'')])
     example_world =
   route_guarded example_services ''gmail_query_emails'' (JObj [(''user_id'', JStr ''a@x.com'')])
     (example_world\<lparr>remote := [], servers := [Some 4100],
        trace := [GetAccountInfo, GetStoredCredentials (JStr ''a@x.com''),
                  GetAuthorizationUrl (JStr ''a@x.com''),
                  Spawn ''open'' [''https://auth.example/?login_hint=a@x.com''],
                  Listen 0 4100]\<rparr>)"
  using C1_flow_started_then_tool_dispatched
    [where nm = "''gmail_query_emails''" and args = "JObj [(''user_id'', JStr ''a@x.com'')]"
       and svc = example_services and w = example_world and accounts = example_accounts
       and ?g1.0 = "[]" and ?g2.0 = "[]" and ?g3.0 = "[]"
       and url = "''https://auth.example/?login_hint=a@x.com''"]
  by (simp add: example_services_def example_key_def example_world_def example_accounts_def)

text \<open>
  C1 as stated fails: the call for \<open>a@x.com\<close> completes with the tool's answer while the
  listener is still waiting; its trace holds no code exchange and no credential write.
\<close>

theorem C1_counterexample:
  "CallTool_handler example_services ''gmail_query_emails'' (JObj [(''user_id'', JStr ''a@x.com'')])
     example_world =
   (Inr \<lparr>isError = False, content = [TextContent ''ok'']\<rparr>,
    \<lparr>remote = [], now = 1700000000000, servers = [Some 4100],
     trace = [GetAccountInfo, GetStoredCredentials (JStr ''a@x.com''),
              GetAuthorizationUrl (JStr ''a@x.com''),
              Spawn ''open'' [''https://auth.example/?login_hint=a@x.com''],
              Listen 0 4100,
              Gmail (QueryEmails (JObj [(''user_id'', JStr ''a@x.com'')]))]\<rparr>)"
  by (simp add: CallTool_handler_def setup_guarded_def setupOAuth2_def startAuthFlow_def
      route_guarded_def route_def GmailTools_handleTool_def gmail_switch_def startsWith_def
      OAuthServer_new_def OAuthServer_listen_def prog_defs
      example_services_def example_key_def example_world_def example_accounts_def)

subsection \<open>C2: the expiry check\<close>

text \<open>
  C2 (as amended). The expiry check applies no safety margin: stored tokens are treated as
  expired exactly when their \<open>expiry_date\<close> is present, non-zero and strictly earlier than
  now. Tokens whose expiry lies 30 seconds or 120 seconds in the future are both not
  treated as expired. The check itself only writes a log line and never fails.
\<close>

theorem C2_expiry_check_has_no_margin:
  "(credentials_expired tk t \<longleftrightarrow> (\<exists>e. expiry_date tk = Some e \<and> e \<noteq> 0 \<and> e < t))
   \<and> \<not> credentials_expired (tk\<lparr>expiry_date := Some (t + 30000)\<rparr>) t
   \<and> \<not> credentials_expired (tk\<lparr>expiry_date := Some (t + 120000)\<rparr>) t
   \<and> log_if_expired c w =
       (Inr (), w\<lparr>trace := trace w @ (if credentials_expired (credentials c) (now w)
                                        then [LogError ''credentials expired, trying refresh'']
                                        else [])\<rparr>)"
  by (auto simp: credentials_expired_def log_if_expired_def emit_def ret_def split: option.splits)

text \<open>The theorem at tokens that expired one millisecond ago, and at the two future expiries.\<close>

theorem C2_witness:
  "credentials_expired \<lparr>access_token = Some ''t'', refresh_token = Some ''R'',
                         expiry_date = Some 1699999999999\<rparr> 1700000000000
   \<and> \<not> credentials_expired \<lparr>access_token = Some ''t'', refresh_token = Some ''R'',
                         expiry_date = Some 1700000030000\<rparr> 1700000000000
   \<and> \<not> credentials_expired \<lparr>access_token = Some ''t'', refresh_token = Some ''R'',
                         expiry_date = Some 1700000120000\<rparr> 1700000000000"
  using C2_expiry_check_has_no_margin
    [where tk = "\<lparr>access_token = Some ''t'', refresh_token = Some ''R'',
                   expiry_date = Some 1699999999999\<rparr>"
       and t = 1700000000000
       and c = "\<lparr>credentials = \<lparr>access_token = Some ''t'', refresh_token = Some ''R'',
                                    expiry_date = Some 1699999999999\<rparr>\<rparr>"
       and w = example_world]
  by simp

text \<open>
  C2 as stated fails: with expiry 30 seconds ahead, now is already past expiry minus a
  60-second margin, yet the check does not treat the tokens as expired.
\<close>

theorem C2_counterexample:
  "\<not> credentials_expired \<lparr>access_token = Some ''t'', refresh_token = Some ''R'',
                            expiry_date = Some (1700000000000 + 30000)\<rparr> 1700000000000
   \<and> (1700000000000 :: int) \<ge> (1700000000000 + 30000) - 60000"
  by (simp add: credentials_expired_def)

subsection \<open>C3: accounts that are not configured\<close>

text \<open>
  C3 (as amended). For every non-empty userId string that does not exactly match the email
  of any account returned by the account registry, a tool call that requires credentials
  fails with the account-not-configured error of the setup step (\<open>No accounts specified\<close>
  when the registry is empty, \<open>Account for email: ... not specified\<close> otherwise), wrapped
  as \<open>OAuth2 setup failed\<close>; while settling the call only the account list is read and a
  log line written: no credential lookup, no provider call, no tool implementation.
\<close>

theorem C3_unknown_account_rejected:
  assumes "getAccountInfo svc (remote w) = (Inr accounts, g')"
    and "u \<notin> email ` set accounts"
    and "u \<noteq> []"
    and "nm \<noteq> ''gmail_list_accounts''" and "nm \<noteq> ''calendar_list_accounts''"
    and "js_typeof args = ''object''" and "args \<noteq> JNull"
    and "user_id args = JStr u"
  shows "CallTool_handler svc nm args w =
     (Inr (error_result (''OAuth2 setup failed: '' @
            (if accounts = [] then ''No accounts specified in .gauth.json''
             else ''Account for email: '' @ u @ '' not specified in .gauth.json''))),
      w\<lparr>remote := g', trace := trace w @ [GetAccountInfo, LogError ''OAuth2 setup failed:'']\<rparr>)"
proof -
  have guarded: "setup_guarded svc (JStr u) w =
     (Inr (Some (error_result (''OAuth2 setup failed: '' @
            (if accounts = [] then ''No accounts specified in .gauth.json''
             else ''Account for email: '' @ u @ '' not specified in .gauth.json'')))),
      w\<lparr>remote := g', trace := trace w @ [GetAccountInfo, LogError ''OAuth2 setup failed:'']\<rparr>)"
    by (simp add: setup_guarded_def try_catch_def bnd_def emit_def ret_def
        setupOAuth2_unknown [OF assms(1,2)])
  show ?thesis
    unfolding CallTool_handler_def using assms(3-8)
    by (simp add: try_catch_def bnd_def ret_def guarded)
qed

text \<open>The theorem at the sample environment, for the unknown account \<open>z@x.com\<close>.\<close>

theorem C3_witness:
  "CallTool_handler example_services ''calendar_list'' (JObj [(''user_id'', JStr ''z@x.com'')])
     example_world =
   (Inr (error_result ''OAuth2 setup failed: Account for email: z@x.com not specified in .gauth.json''),
    example_world\<lparr>remote := [], trace := [GetAccountInfo, LogError ''OAuth2 setup failed:'']\<rparr>)"
  using C3_unknown_account_rejected
    [where svc = example_services and w = example_world and accounts = example_accounts
       and g' = "[]" and u = "''z@x.com''" and nm = "''calendar_list''"
       and args = "JObj [(''user_id'', JStr ''z@x.com'')]"]
  by (simp add: example_services_def example_key_def example_world_def example_accounts_def)

text \<open>
  C3 as stated fails at the empty string: it matches no account, but the call is turned
  away by the earlier missing-\<open>user_id\<close> guard, with a different error.
\<close>

theorem C3_counterexample:
  "CallTool_handler example_services ''gmail_query_emails'' (JObj [(''user_id'', JStr [])])
     example_world =
   (Inr (error_result ''user_id argument is missing in dictionary''), example_world)
   \<and> [] \<notin> email ` set example_accounts
   \<and> error_result ''user_id argument is missing in dictionary'' \<noteq>
       error_result ''OAuth2 setup failed: Account for email:  not specified in .gauth.json''"
  by (simp add: CallTool_handler_def try_catch_def ret_def example_accounts_def
      error_result_def JSON_stringify_error_def JSON_quote_def JSON_escape_def)

subsection \<open>C4: the callback route\<close>




subsection \<open>C5: a callback without a code\<close>

text \<open>
  C5 (as amended). For every request to \<open>/code\<close> whose query carries no code parameter, the
  callback listener responds 400 and keeps listening, whatever else the query carries. A
  provider error parameter is not read: the only effect of the request is the bare 400,
  nothing is resolved and the listener goes on waiting.
\<close>

theorem C5_missing_code_gets_400:
  assumes "req_pathname req = Some ''/code''"
    and "map_of (req_query req) ''code'' = None"
  shows "handleRequest svc sid req w = (Inr (), w\<lparr>trace := trace w @ [Respond sid 400 []]\<rparr>)"
  using assms by (simp add: handleRequest_def emit_def)

text \<open>The theorem at a callback that carries only a state parameter.\<close>

theorem C5_witness:
  "handleRequest example_services 0
     \<lparr>req_method = ''GET'', req_pathname = Some ''/code'', req_query = [(''state'', QStr ''s'')]\<rparr>
     example_waiting
   = (Inr (), example_waiting\<lparr>trace := [Respond 0 400 []]\<rparr>)"
  using C5_missing_code_gets_400
    [where req = "\<lparr>req_method = ''GET'', req_pathname = Some ''/code'',
                    req_query = [(''state'', QStr ''s'')]\<rparr>"
       and svc = example_services and sid = 0 and w = example_waiting]
  by (simp add: example_waiting_def)

text \<open>
  C5 as stated fails: a callback carrying \<open>error=access_denied\<close> gets the same outcome as
  one carrying nothing. The listener still waits on port 4100 and no denial is recorded.
\<close>

theorem C5_counterexample:
  "handleRequest example_services 0
     \<lparr>req_method = ''GET'', req_pathname = Some ''/code'',
      req_query = [(''error'', QStr ''access_denied'')]\<rparr>
     example_waiting
   = (Inr (),
      \<lparr>remote = [], now = 1700000000000, servers = [Some 4100], trace = [Respond 0 400 []]\<rparr>)
   \<and> handleRequest example_services 0
     \<lparr>req_method = ''GET'', req_pathname = Some ''/code'',
      req_query = [(''error'', QStr ''access_denied'')]\<rparr>
     example_waiting
   = handleRequest example_services 0
     \<lparr>req_method = ''GET'', req_pathname = Some ''/code'', req_query = []\<rparr>
     example_waiting"
  by (simp add: handleRequest_def emit_def example_waiting_def)

subsection \<open>C6: a second interactive flow\<close>

text \<open>
  C6 (as amended). There is no single-flight guard: starting an interactive flow never
  fails with AuthFlowBusy. Whatever listeners are already waiting, whenever the
  authorization URL can be built \<open>startAuthFlow\<close> returns normally after opening the URL,
  creating one more listener and calling \<open>listen(4100)\<close> on it.
\<close>

theorem C6_no_single_flight_guard:
  assumes "getAuthorizationUrl svc u (remote w) = (Inr url, g')"
  shows "startAuthFlow svc u w =
     (Inr (), w\<lparr>remote := g', servers := servers w @ [Some 4100],
               trace := trace w @ [GetAuthorizationUrl u, Spawn ''open'' [url],
                                   Listen (length (servers w)) 4100]\<rparr>)"
  using assms by (rule startAuthFlow_ok)

text \<open>The theorem at a process in which one listener already waits on port 4100.\<close>

theorem C6_witness:
  "startAuthFlow example_services (JStr ''b@x.com'') example_waiting =
     (Inr (), example_waiting\<lparr>remote := [], servers := [Some 4100, Some 4100],
               trace := [GetAuthorizationUrl (JStr ''b@x.com''),
                         Spawn ''open'' [''https://auth.example/?login_hint=b@x.com''],
                         Listen 1 4100]\<rparr>)"
  using C6_no_single_flight_guard
    [where svc = example_services and u = "JStr ''b@x.com''" and w = example_waiting
       and url = "''https://auth.example/?login_hint=b@x.com''" and g' = "[]"]
  by (simp add: example_services_def example_key_def example_waiting_def)

text \<open>
  C6 as stated fails: a second flow started while the first is pending returns normally,
  and two listeners have \<open>listen(4100)\<close> outstanding.
\<close>

theorem C6_counterexample:
  "bnd (startAuthFlow example_services (JStr ''a@x.com''))
       (\<lambda>_. startAuthFlow example_services (JStr ''b@x.com'')) example_world =
   (Inr (),
    \<lparr>remote = [], now = 1700000000000, servers = [Some 4100, Some 4100],
     trace = [GetAuthorizationUrl (JStr ''a@x.com''),
              Spawn ''open'' [''https://auth.example/?login_hint=a@x.com''],
              Listen 0 4100,
              GetAuthorizationUrl (JStr ''b@x.com''),
              Spawn ''open'' [''https://auth.example/?login_hint=b@x.com''],
              Listen 1 4100]\<rparr>)"
  by (simp add: startAuthFlow_def prog_defs OAuthServer_new_def OAuthServer_listen_def
      example_services_def example_key_def example_world_def)

subsection \<open>C7: failures of the credential layer\<close>




subsection \<open>C8: refresh keeps the refresh token\<close>

text \<open>
  C8. For every stored token set containing a refresh token \<open>R\<close>, if a refresh succeeds
  and the provider's response omits a new refresh token, the token set persisted
  afterwards still contains the refresh token \<open>R\<close> (with the new access token and expiry).
\<close>

theorem C8_refresh_keeps_refresh_token:
  assumes "store em = Some ts"
    and "refreshToken ts = Some R"
    and "provider R = Granted resp"
    and "new_refreshToken resp = None"
  shows "\<exists>ts' store'. refresh_and_persist provider em store = (Inr ts', store') \<and>
           store' em = Some ts' \<and> refreshToken ts' = Some R \<and>
           accessToken ts' = new_accessToken resp \<and> expiry ts' = new_expiry resp"
  using assms by (simp add: refresh_and_persist_def refresh_def)

text \<open>The theorem at a store holding \<open>R\<close> for \<open>a@x.com\<close> and a provider that reissues nothing.\<close>

theorem C8_witness:
  "\<exists>ts' store'.
     refresh_and_persist
       (\<lambda>r. if r = ''R'' then Granted \<lparr>new_accessToken = ''A2'', new_refreshToken = None, new_expiry = 7200\<rparr>
             else Rejected)
       ''a@x.com''
       [''a@x.com'' \<mapsto> \<lparr>accessToken = ''A1'', refreshToken = Some ''R'', expiry = 3600,
                           scopes = [''mail'']\<rparr>]
       = (Inr ts', store') \<and>
     store' ''a@x.com'' = Some ts' \<and> refreshToken ts' = Some ''R'' \<and>
     accessToken ts' = ''A2'' \<and> expiry ts' = 7200"
  using C8_refresh_keeps_refresh_token
    [where provider = "\<lambda>r. if r = ''R'' then Granted \<lparr>new_accessToken = ''A2'', new_refreshToken = None, new_expiry = 7200\<rparr>
             else Rejected"
       and em = "''a@x.com''"
       and store = "[''a@x.com'' \<mapsto> \<lparr>accessToken = ''A1'', refreshToken = Some ''R'', expiry = 3600,
                           scopes = [''mail'']\<rparr>]"
       and ts = "\<lparr>accessToken = ''A1'', refreshToken = Some ''R'', expiry = 3600, scopes = [''mail'']\<rparr>"
       and R = "''R''"
       and resp = "\<lparr>new_accessToken = ''A2'', new_refreshToken = None, new_expiry = 7200\<rparr>"]
  by simp

subsection \<open>C9: a tool call without user_id\<close>

text \<open>
  C9. For every tool call whose tool name is not \<open>gmail_list_accounts\<close> or
  \<open>calendar_list_accounts\<close>, if the arguments object lacks a \<open>user_id\<close> key, the handler
  returns an error result whose payload names the missing \<open>user_id\<close>, and the world is
  left as it was: no tool implementation is invoked and no OAuth setup is attempted.
\<close>

theorem C9_missing_user_id_rejected:
  assumes "nm \<noteq> ''gmail_list_accounts''" and "nm \<noteq> ''calendar_list_accounts''"
    and "map_of kvs ''user_id'' = None"
  shows "CallTool_handler svc nm (JObj kvs) w =
           (Inr \<lparr>isError = True,
                 content = [TextContent (JSON_stringify_error ''user_id argument is missing in dictionary'')]\<rparr>,
            w)"
  using assms by (simp add: CallTool_handler_def try_catch_def ret_def error_result_def)

text \<open>The theorem at a send request without \<open>user_id\<close>, with the payload text spelled out.\<close>

theorem C9_witness:
  "CallTool_handler example_services ''gmail_send_email'' (JObj [(''to'', JStr ''c@x.com'')]) example_world =
     (Inr \<lparr>isError = True,
           content = [TextContent
             (''{'' @ [CHR 0x0A] @ ''  '' @ [CHR 0x22] @ ''error'' @ [CHR 0x22] @ '': '' @ [CHR 0x22] @
              ''user_id argument is missing in dictionary'' @ [CHR 0x22] @ '','' @ [CHR 0x0A] @
              ''  '' @ [CHR 0x22] @ ''success'' @ [CHR 0x22] @ '': false'' @ [CHR 0x0A] @ ''}'')]\<rparr>,
      example_world)"
  using C9_missing_user_id_rejected
    [where nm = "''gmail_send_email''" and kvs = "[(''to'', JStr ''c@x.com'')]"
       and svc = example_services and w = example_world]
  by (simp add: JSON_stringify_error_def JSON_quote_def JSON_escape_def)

subsection \<open>C10: the sending tools\<close>

text \<open>
  C10. When the environment variable \<open>GMAIL_ALLOW_SENDING\<close> is not the string \<open>true\<close>,
  \<open>getTools\<close> advertises the nine other tools and none of \<open>gmail_reply\<close>,
  \<open>gmail_create_draft\<close>, \<open>gmail_forward\<close>, \<open>gmail_send_email\<close>; yet \<open>handleTool\<close> dispatches
  each of those four names to its implementation, for every argument object.
\<close>

theorem C10_sending_tools_hidden_not_blocked:
  assumes "allow_sending \<noteq> Some ''true''"
  shows "map tool_name (getTools allow_sending) =
           [''gmail_list_accounts'', ''gmail_query_emails'', ''gmail_get_email'',
            ''gmail_bulk_get_emails'', ''gmail_delete_draft'', ''gmail_get_attachment'',
            ''gmail_bulk_save_attachments'', ''gmail_archive'', ''gmail_bulk_archive'']
       \<and> ''gmail_reply'' \<notin> set (map tool_name (getTools allow_sending))
       \<and> ''gmail_create_draft'' \<notin> set (map tool_name (getTools allow_sending))
       \<and> ''gmail_forward'' \<notin> set (map tool_name (getTools allow_sending))
       \<and> ''gmail_send_email'' \<notin> set (map tool_name (getTools allow_sending))
       \<and> GmailTools_handleTool svc ''gmail_reply'' args = gcall (Gmail (Reply args)) (gmail_impl svc (Reply args))
       \<and> GmailTools_handleTool svc ''gmail_create_draft'' args =
           gcall (Gmail (CreateDraft args)) (gmail_impl svc (CreateDraft args))
       \<and> GmailTools_handleTool svc ''gmail_forward'' args =
           gcall (Gmail (Forward args)) (gmail_impl svc (Forward args))
       \<and> GmailTools_handleTool svc ''gmail_send_email'' args =
           gcall (Gmail (SendEmail args)) (gmail_impl svc (SendEmail args))"
proof -
  have names: "map tool_name (getTools allow_sending) =
           [''gmail_list_accounts'', ''gmail_query_emails'', ''gmail_get_email'',
            ''gmail_bulk_get_emails'', ''gmail_delete_draft'', ''gmail_get_attachment'',
            ''gmail_bulk_save_attachments'', ''gmail_archive'', ''gmail_bulk_archive'']"
    using assms by (simp add: getTools_def gmail_tools_def)
  have dispatch:
    "GmailTools_handleTool svc ''gmail_reply'' args = gcall (Gmail (Reply args)) (gmail_impl svc (Reply args))"
    "GmailTools_handleTool svc ''gmail_create_draft'' args =
           gcall (Gmail (CreateDraft args)) (gmail_impl svc (CreateDraft args))"
    "GmailTools_handleTool svc ''gmail_forward'' args =
           gcall (Gmail (Forward args)) (gmail_impl svc (Forward args))"
    "GmailTools_handleTool svc ''gmail_send_email'' args =
           gcall (Gmail (SendEmail args)) (gmail_impl svc (SendEmail args))"
    by (simp_all add: GmailTools_handleTool_def gmail_switch_def)
  show ?thesis
    unfolding names using dispatch by simp
qed

text \<open>The theorem with the variable set to \<open>false\<close>: sending is not listed, and still runs.\<close>

theorem C10_witness:
  "''gmail_send_email'' \<notin> set (map tool_name (getTools (Some ''false'')))
   \<and> GmailTools_handleTool example_services ''gmail_send_email'' (JObj [(''user_id'', JStr ''a@x.com'')])
        example_world =
      (Inr [TextContent ''ok''],
       example_world\<lparr>trace := [Gmail (SendEmail (JObj [(''user_id'', JStr ''a@x.com'')]))]\<rparr>)"
  using C10_sending_tools_hidden_not_blocked
    [where allow_sending = "Some ''false''" and svc = example_services
       and args = "JObj [(''user_id'', JStr ''a@x.com'')]"]
  by (simp add: gcall_def example_services_def example_key_def example_world_def)

end
